theory Spec2Isabelle
  imports Main "HOL-Library.AList"
begin

section \<open>Gemini compatibility: \<open>src/utils/gemini-compat.ts\<close>\<close>

subsection \<open>JavaScript values as JSON data\<close>

text \<open>
  The argument of \<open>removeAdditionalProperties\<close> has the TypeScript type \<open>any\<close>. The
  function distinguishes \<open>null\<close> and \<open>undefined\<close>, arrays, objects, and everything else
  (booleans, numbers, strings), which it returns as it is. The payload of a number is never
  inspected, so its type is a parameter.

  An object is the ordered list of its own enumerable string-keyed properties, which is what
  \<open>Object.entries\<close> enumerates and what \<open>JSON.stringify\<close> writes; the prototype of an
  object is not part of the JSON data. The keys of a JavaScript object are distinct; the
  model does not rely on it.
\<close>

datatype 'n json =
    JNull
  | JUndefined
  | JBoolean bool
  | JNumber 'n
  | JString string
  | JArray "'n json list"
  | JObject "(string \<times> 'n json) list"

text \<open>
  The assignment \<open>cleaned[key] = value\<close> on an object created by the literal \<open>{}\<close>.
  For an ordinary key it creates the own property at the end of the object, or overwrites it
  in place when it exists (\<open>AList.update\<close>). The key \<open>__proto__\<close> is different:
  \<open>Object.prototype\<close> has an accessor property of that name, so the assignment runs the
  inherited setter (ECMA-262, \<open>set Object.prototype.__proto__\<close>), which replaces the
  prototype when the value is an object or \<open>null\<close> and does nothing otherwise. In both
  cases no own property is created.
\<close>

definition assign :: "(string \<times> 'v) list \<Rightarrow> string \<Rightarrow> 'v \<Rightarrow> (string \<times> 'v) list" where
  "assign cleaned key v =
     (if key = ''__proto__'' then cleaned else AList.update key v cleaned)"

subsection \<open>\<open>removeAdditionalProperties\<close>\<close>

text \<open>
  \<^verbatim>\<open>
  export function removeAdditionalProperties(obj: any): any {
      if (obj === null || obj === undefined) { return obj; }
      if (Array.isArray(obj)) { return obj.map(item => removeAdditionalProperties(item)); }
      if (typeof obj === 'object') {
          const cleaned: any = {};
          for (const [key, value] of Object.entries(obj)) {
              if (key === 'additionalProperties') { continue; }
              cleaned[key] = removeAdditionalProperties(value);
          }
          return cleaned;
      }
      return obj;
  }
  \<close>
  The \<open>for\<close> loop is a left fold over the entries, starting from the empty object.
\<close>

fun removeAdditionalProperties :: "'n json \<Rightarrow> 'n json" where
  "removeAdditionalProperties JNull = JNull"
| "removeAdditionalProperties JUndefined = JUndefined"
| "removeAdditionalProperties (JArray items) = JArray (map removeAdditionalProperties items)"
| "removeAdditionalProperties (JObject entries) =
     JObject (foldl (\<lambda>cleaned (key, v).
                 if key = ''additionalProperties'' then cleaned
                 else assign cleaned key (removeAdditionalProperties v)) [] entries)"
| "removeAdditionalProperties obj = obj"

text \<open>The loop on its own, for any recursive call \<open>f\<close> and any starting object.\<close>

definition copyEntries ::
  "('a \<Rightarrow> 'v) \<Rightarrow> (string \<times> 'v) list \<Rightarrow> (string \<times> 'a) list \<Rightarrow> (string \<times> 'v) list" where
  "copyEntries f acc es =
     foldl (\<lambda>cleaned (key, v).
              if key = ''additionalProperties'' then cleaned
              else assign cleaned key (f v)) acc es"

text \<open>
  What the documentation of the function says, as a second definition: the same value with
  every property named \<open>additionalProperties\<close> left out, at every depth, and nothing else
  changed.
\<close>

fun withoutAdditionalProperties :: "'n json \<Rightarrow> 'n json" where
  "withoutAdditionalProperties (JArray items) = JArray (map withoutAdditionalProperties items)"
| "withoutAdditionalProperties (JObject entries) =
     JObject (map (\<lambda>(key, v). (key, withoutAdditionalProperties v))
                (filter (\<lambda>(key, v). key \<noteq> ''additionalProperties'') entries))"
| "withoutAdditionalProperties obj = obj"

text \<open>
  A value on which the function has nothing left to do: at every depth the keys of an object
  are distinct and none of them is \<open>additionalProperties\<close> or \<open>__proto__\<close>.
\<close>

fun settled :: "'n json \<Rightarrow> bool" where
  "settled (JArray items) = list_all settled items"
| "settled (JObject entries) =
     (distinct (map fst entries) \<and>
      list_all (\<lambda>(key, v). key \<noteq> ''additionalProperties'' \<and> key \<noteq> ''__proto__'' \<and> settled v)
        entries)"
| "settled obj = True"

text \<open>
  A value as \<open>JSON.parse\<close> builds it with no own property named \<open>__proto__\<close>: the keys
  of every object are distinct and none is \<open>__proto__\<close>.
\<close>

fun plain :: "'n json \<Rightarrow> bool" where
  "plain (JArray items) = list_all plain items"
| "plain (JObject entries) =
     (distinct (map fst entries) \<and>
      list_all (\<lambda>(key, v). key \<noteq> ''__proto__'' \<and> plain v) entries)"
| "plain obj = True"

text \<open>Some object, at some depth, has an own property named \<open>additionalProperties\<close>.\<close>

fun mentionsAdditionalProperties :: "'n json \<Rightarrow> bool" where
  "mentionsAdditionalProperties (JArray items) = list_ex mentionsAdditionalProperties items"
| "mentionsAdditionalProperties (JObject entries) =
     list_ex (\<lambda>(key, v). key = ''additionalProperties'' \<or> mentionsAdditionalProperties v) entries"
| "mentionsAdditionalProperties obj = False"


section \<open>The MCP server: \<open>src/mcp-server.ts\<close>\<close>

subsection \<open>JavaScript truthiness\<close>

text \<open>
  \<open>a || b\<close> is \<open>a\<close> when \<open>a\<close> is truthy and \<open>b\<close> otherwise. Of the values of type
  \<open>string | undefined\<close> only \<open>undefined\<close> and the empty string are falsy; of
  \<open>boolean | undefined\<close> only \<open>true\<close> is truthy; an array is always truthy. An optional
  value is an \<open>option\<close>, \<open>None\<close> for \<open>undefined\<close>.
\<close>

definition truthyString :: "string option \<Rightarrow> bool" where
  "truthyString v = (case v of None \<Rightarrow> False | Some s \<Rightarrow> s \<noteq> [])"

definition orString :: "string option \<Rightarrow> string \<Rightarrow> string" where
  "orString v d = (case v of None \<Rightarrow> d | Some s \<Rightarrow> if s = [] then d else s)"

definition orBoolean :: "bool option \<Rightarrow> bool \<Rightarrow> bool" where
  "orBoolean v d = (case v of None \<Rightarrow> d | Some b \<Rightarrow> if b then b else d)"

definition orArray :: "'a list option \<Rightarrow> 'a list \<Rightarrow> 'a list" where
  "orArray v d = (case v of None \<Rightarrow> d | Some xs \<Rightarrow> xs)"

subsection \<open>\<open>createHTTPTransport\<close>\<close>

text \<open>
  \<^verbatim>\<open>
  createHTTPTransport(options?: {
      enableDnsRebindingProtection?: boolean;
      allowedHosts?: string[];
  }): StreamableHTTPServerTransport {
      return new StreamableHTTPServerTransport({
          sessionIdGenerator: () => randomUUID(),
          enableDnsRebindingProtection: options?.enableDnsRebindingProtection || true,
          allowedHosts: options?.allowedHosts || ['127.0.0.1', 'localhost']
      });
  }
  \<close>
  The result is the options object the transport is constructed with. The session id
  generator is the same random generator in every call and is left out.
\<close>

record HTTPTransportOptions =
  enableDnsRebindingProtection :: "bool option"
  allowedHosts :: "string list option"

record StreamableHTTPServerTransport =
  transportDnsRebindingProtection :: bool
  transportAllowedHosts :: "string list"

text \<open>\<open>options?.field\<close> is \<open>undefined\<close> when \<open>options\<close> is.\<close>

definition optionalField :: "('r \<Rightarrow> 'a option) \<Rightarrow> 'r option \<Rightarrow> 'a option" where
  "optionalField field options = (case options of None \<Rightarrow> None | Some r \<Rightarrow> field r)"

definition createHTTPTransport :: "HTTPTransportOptions option \<Rightarrow> StreamableHTTPServerTransport" where
  "createHTTPTransport options =
     \<lparr> transportDnsRebindingProtection =
         orBoolean (optionalField enableDnsRebindingProtection options) True,
       transportAllowedHosts =
         orArray (optionalField allowedHosts options) [''127.0.0.1'', ''localhost''] \<rparr>"

subsection \<open>Services, tools and the two registries\<close>

text \<open>
  Modelled from the spec: the type \<open>ODataService\<close> of \<open>src/types/sap-types.ts\<close>, which
  is not among the sources. It is the ServiceDescriptor of section 3 of the specification:
  \<open>{serviceId, serviceName, description, odataVersion, categories, entityNames}\<close>.
\<close>

record ODataService =
  serviceId :: string
  serviceName :: string
  description :: string
  odataVersion :: string
  categories :: "string list"
  entityNames :: "string list"

datatype operation = Read | ReadSingle | Create | Update | Delete

text \<open>
  A registered tool: one of the three tools of the progressive discovery
  (\<open>discover-sap-data\<close>, \<open>get-entity-metadata\<close>, \<open>execute-sap-operation\<close>), or a tool
  for one operation on one entity of one service.
\<close>

datatype tool =
    DiscoverSapData
  | GetEntityMetadata
  | ExecuteSapOperation
  | EntityTool string string operation

text \<open>
  The methods that \<open>MCPServer\<close> calls on its registry. Each registry keeps the calls it
  has received, oldest first, next to the state they produce. The AuthContext is written by
  the hierarchical registry's \<open>setUserToken\<close> and read by its \<open>executeOperation\<close>
  only; in a flat registry nothing writes or reads it.
\<close>

datatype registryCall =
    SetUserToken "string option"
  | RegisterServiceMetadataResources
  | RegisterDiscoveryTools
  | RegisterServiceCRUDTools

record registryState =
  registryServices :: "ODataService list"
  received :: "registryCall list"
  registeredTools :: "tool list"
  authContext :: "string option"

text \<open>
  \<open>private toolRegistry: HierarchicalSAPToolRegistry | SAPToolRegistry\<close>: the two classes
  are the two constructors, and \<open>instanceof\<close> is the case distinction on them.
\<close>

datatype toolRegistry =
    HierarchicalSAPToolRegistry registryState
  | SAPToolRegistry registryState

fun instanceofHierarchical :: "toolRegistry \<Rightarrow> bool" where
  "instanceofHierarchical (HierarchicalSAPToolRegistry r) = True"
| "instanceofHierarchical (SAPToolRegistry r) = False"

fun registryStateOf :: "toolRegistry \<Rightarrow> registryState" where
  "registryStateOf (HierarchicalSAPToolRegistry r) = r"
| "registryStateOf (SAPToolRegistry r) = r"

text \<open>
  Both constructors take \<open>(mcpServer, sapClient, logger, discoveredServices)\<close>; a new
  registry has received no call, has registered no tool and holds no credential.
\<close>

definition newRegistry :: "ODataService list \<Rightarrow> registryState" where
  "newRegistry discovered =
     \<lparr> registryServices = discovered, received = [], registeredTools = [], authContext = None \<rparr>"

text \<open>
  Modelled from the spec: \<open>HierarchicalSAPToolRegistry.setUserToken\<close>
  (\<open>src/tools/hierarchical-tool-registry.ts\<close> is not among the sources). Section 4.5:
  "\<open>setCredential(token?)\<close> (updates the AuthContext used by subsequent
  \<open>executeOperation\<close> calls; absence clears it)".
\<close>

definition registrySetUserToken :: "string option \<Rightarrow> registryState \<Rightarrow> registryState" where
  "registrySetUserToken token r =
     r\<lparr> received := received r @ [SetUserToken token], authContext := token \<rparr>"

text \<open>
  Modelled from the spec: \<open>registerServiceMetadataResources\<close> of both registries (not
  among the sources). Section 4.5: the registration "binds the three tools and any read-only
  resource views"; resource views are not tools.
\<close>

definition registerServiceMetadataResources :: "registryState \<Rightarrow> registryState" where
  "registerServiceMetadataResources r =
     r\<lparr> received := received r @ [RegisterServiceMetadataResources] \<rparr>"

text \<open>
  Modelled from the spec: \<open>HierarchicalSAPToolRegistry.registerDiscoveryTools\<close> (not among
  the sources). Section 4.5: "exposes exactly three externally callable operations --
  \<open>discover\<close>, \<open>getMetadata\<close>, \<open>executeOperation\<close>".
\<close>

definition registerDiscoveryTools :: "registryState \<Rightarrow> registryState" where
  "registerDiscoveryTools r =
     r\<lparr> received := received r @ [RegisterDiscoveryTools],
        registeredTools := registeredTools r @ [DiscoverSapData, GetEntityMetadata, ExecuteSapOperation] \<rparr>"

text \<open>
  Modelled from the spec: \<open>SAPToolRegistry.registerServiceCRUDTools\<close>
  (\<open>src/tools/sap-tool-registry.ts\<close> is not among the sources). Section 1 describes the
  flat exposure as "one tool per entity/operation (which would explode into hundreds of
  definitions)"; section 4.5: "A configuration toggle suppresses registration of any
  CRUD-style "read single entity" shortcut tool entirely (all entities, all services)".
\<close>

definition entityOperations :: "bool \<Rightarrow> operation list" where
  "entityOperations disableReadEntity =
     filter (\<lambda>op. \<not> (disableReadEntity \<and> op = ReadSingle)) [Read, ReadSingle, Create, Update, Delete]"

definition crudTools :: "bool \<Rightarrow> ODataService list \<Rightarrow> tool list" where
  "crudTools disableReadEntity discovered =
     concat (map (\<lambda>service.
       concat (map (\<lambda>entity. map (EntityTool (serviceId service) entity)
                                (entityOperations disableReadEntity))
                 (entityNames service))) discovered)"

definition registerServiceCRUDTools :: "bool \<Rightarrow> registryState \<Rightarrow> registryState" where
  "registerServiceCRUDTools disableReadEntity r =
     r\<lparr> received := received r @ [RegisterServiceCRUDTools],
        registeredTools := registeredTools r @ crudTools disableReadEntity (registryServices r) \<rparr>"

subsection \<open>The class \<open>MCPServer\<close>\<close>

text \<open>
  The fields of the class that the claims are about: the discovered services, the registry,
  the user token, and whether \<open>connectStdio\<close> has connected the stdio transport. The
  logger, the SAP client and the SDK's \<open>McpServer\<close> are collaborators.
\<close>

record MCPServer =
  discoveredServices :: "ODataService list"
  toolRegistry :: toolRegistry
  userToken :: "string option"
  stdioConnected :: bool

text \<open>
  What the collaborators do in one run of the process: the environment \<open>process.env\<close>,
  and whether the constructors called by \<open>new MCPServer\<close> (\<open>Config\<close>,
  \<open>DestinationService\<close>, \<open>SAPClient\<close>, \<open>McpServer\<close>, the registry), the
  registration methods of the registry, and \<open>mcpServer.connect\<close> throw.
\<close>

record collaborators =
  processEnv :: "string \<Rightarrow> string option"
  constructionThrows :: bool
  registrationThrows :: bool
  connectThrows :: bool

datatype startupError = ConstructionFailed | RegistrationFailed | ConnectFailed

text \<open>
  \<^verbatim>\<open>
  const registryType = process.env.MCP_TOOL_REGISTRY_TYPE || 'hierarchical';
  if (registryType === 'flat') {
      this.toolRegistry = new SAPToolRegistry(...);
  } else {
      this.toolRegistry = new HierarchicalSAPToolRegistry(...);
  }
  \<close>
\<close>

definition newMCPServer :: "(string \<Rightarrow> string option) \<Rightarrow> ODataService list \<Rightarrow> MCPServer" where
  "newMCPServer env discovered =
     (let registryType = orString (env ''MCP_TOOL_REGISTRY_TYPE'') ''hierarchical''
      in \<lparr> discoveredServices = discovered,
           toolRegistry =
             (if registryType = ''flat'' then SAPToolRegistry (newRegistry discovered)
              else HierarchicalSAPToolRegistry (newRegistry discovered)),
           userToken = None,
           stdioConnected = False \<rparr>)"

text \<open>
  \<^verbatim>\<open>
  setUserToken(token?: string): void {
      this.userToken = token;
      if (this.toolRegistry instanceof HierarchicalSAPToolRegistry) {
          this.toolRegistry.setUserToken(token);
      }
      // Note: SAPToolRegistry doesn't support user tokens yet
      ...
  }
  \<close>
\<close>

definition setUserToken :: "string option \<Rightarrow> MCPServer \<Rightarrow> MCPServer" where
  "setUserToken token this =
     (case toolRegistry this of
        HierarchicalSAPToolRegistry r \<Rightarrow>
          this\<lparr> userToken := token,
                toolRegistry := HierarchicalSAPToolRegistry (registrySetUserToken token r) \<rparr>
      | SAPToolRegistry r \<Rightarrow> this\<lparr> userToken := token \<rparr>)"

text \<open>
  Modelled from the spec: the configuration flag read by the absent \<open>Config\<close> class. The
  repository's documentation sets it with \<open>DISABLE_READ_ENTITY_TOOL=true\<close>.
\<close>

definition disableReadEntityTool :: "(string \<Rightarrow> string option) \<Rightarrow> bool" where
  "disableReadEntityTool env = (env ''DISABLE_READ_ENTITY_TOOL'' = Some ''true'')"

text \<open>
  \<^verbatim>\<open>
  async initialize(): Promise<void> {
      try {
          if (this.toolRegistry instanceof HierarchicalSAPToolRegistry) {
              this.toolRegistry.registerServiceMetadataResources();
              await this.toolRegistry.registerDiscoveryTools();
          } else if (this.toolRegistry instanceof SAPToolRegistry) {
              this.toolRegistry.registerServiceMetadataResources();
              await this.toolRegistry.registerServiceCRUDTools();
          }
      } catch (error) { ...; throw error; }
  }
  \<close>
\<close>

definition initialize :: "collaborators \<Rightarrow> MCPServer \<Rightarrow> startupError + MCPServer" where
  "initialize w this =
     (if registrationThrows w then Inl RegistrationFailed
      else Inr (case toolRegistry this of
             HierarchicalSAPToolRegistry r \<Rightarrow>
               this\<lparr> toolRegistry := HierarchicalSAPToolRegistry
                        (registerDiscoveryTools (registerServiceMetadataResources r)) \<rparr>
           | SAPToolRegistry r \<Rightarrow>
               this\<lparr> toolRegistry := SAPToolRegistry
                        (registerServiceCRUDTools (disableReadEntityTool (processEnv w))
                           (registerServiceMetadataResources r)) \<rparr>))"

definition connectStdio :: "collaborators \<Rightarrow> MCPServer \<Rightarrow> startupError + MCPServer" where
  "connectStdio w this =
     (if connectThrows w then Inl ConnectFailed else Inr (this\<lparr> stdioConnected := True \<rparr>))"

text \<open>
  \<^verbatim>\<open>
  export async function createMCPServer(discoveredServices, userToken?) {
      const server = new MCPServer(discoveredServices);
      if (userToken) { server.setUserToken(userToken); }
      await server.initialize();
      return server;
  }
  \<close>
\<close>

definition createMCPServer ::
  "collaborators \<Rightarrow> ODataService list \<Rightarrow> string option \<Rightarrow> startupError + MCPServer" where
  "createMCPServer w discovered token =
     (if constructionThrows w then Inl ConstructionFailed
      else let server = newMCPServer (processEnv w) discovered
           in initialize w (if truthyString token then setUserToken token server else server))"

text \<open>The tools a server exposes are those its registry has registered.\<close>

definition exposedTools :: "MCPServer \<Rightarrow> tool list" where
  "exposedTools this = registeredTools (registryStateOf (toolRegistry this))"

subsection \<open>The stdio entry point\<close>

text \<open>
  How a run of the process ends up: serving on stdio with a server, or terminated by
  \<open>process.exit\<close> with an exit code.
\<close>

datatype processOutcome = Running MCPServer | Exited nat

text \<open>
  \<^verbatim>\<open>
  export async function runStdioServer(discoveredServices) {
      try {
          const server = await createMCPServer(discoveredServices);
          await server.connectStdio();
      } catch (error) { ...; process.exit(1); }
  }
  \<close>
\<close>

definition runStdioServer :: "collaborators \<Rightarrow> ODataService list \<Rightarrow> processOutcome" where
  "runStdioServer w discovered =
     (case createMCPServer w discovered None of
        Inl e \<Rightarrow> Exited 1
      | Inr server \<Rightarrow>
          (case connectStdio w server of
             Inl e \<Rightarrow> Exited 1
           | Inr connected \<Rightarrow> Running connected))"

text \<open>
  What \<open>Promise.race([discoveryPromise, timeoutPromise])\<close> settles with: the services of
  the discovery, the rejection of the discovery (or any exception thrown in the \<open>try\<close>
  block before it), or the rejection of the 60 second timer. The clock is not modelled:
  which promise settles first is an input.
\<close>

datatype discoveryRace =
    DiscoveryResolved "ODataService list"
  | DiscoveryRejected
  | TimeoutRejected

text \<open>
  \<^verbatim>\<open>
  try {
      ...
      const discoveredServices = await Promise.race([discoveryPromise, timeoutPromise]);
      await runStdioServer(discoveredServices);
  } catch (error) {
      ...
      await runStdioServer([]);
  }
  \<close>
  \<open>runStdioServer\<close> does not throw: it catches every error and exits.
\<close>

definition stdioEntryPoint :: "collaborators \<Rightarrow> discoveryRace \<Rightarrow> processOutcome" where
  "stdioEntryPoint w race =
     (case race of
        DiscoveryResolved discovered \<Rightarrow> runStdioServer w discovered
      | DiscoveryRejected \<Rightarrow> runStdioServer w []
      | TimeoutRejected \<Rightarrow> runStdioServer w [])"

fun discoveryFailed :: "discoveryRace \<Rightarrow> bool" where
  "discoveryFailed (DiscoveryResolved discovered) = False"
| "discoveryFailed DiscoveryRejected = True"
| "discoveryFailed TimeoutRejected = True"

fun operational :: "processOutcome \<Rightarrow> bool" where
  "operational (Running server) = True"
| "operational (Exited code) = False"


section \<open>The discovery and dispatch core, from the specification\<close>

text \<open>
  The handlers of the three tools are methods of \<open>HierarchicalSAPToolRegistry\<close>, in
  \<open>src/tools/hierarchical-tool-registry.ts\<close>, which is not among the sources. What
  follows is modelled from sections 3, 4 and 6 of the specification.
\<close>

datatype error =
    DiscoveryTimeout
  | EntityNotFound
  | MetadataFetchError
  | CapabilityDenied
  | MissingRequiredField
  | MissingKey
  | UnknownProperty
  | AuthenticationRequired
  | RemoteFault nat string
  | RemoteUnavailable string
  | RemoteUnexpectedResponse nat string

subsection \<open>Level 1: the service catalog search\<close>

text \<open>
  Case-insensitive substring match: both strings are case-folded and the query must occur
  in the name as a contiguous run. The case folding is the parameter \<open>lower\<close> of the
  search, so that what is proved holds for every folding; \<open>toLowerCase\<close> is the folding
  of the ASCII letters, used in the examples.
\<close>

definition toLowerChar :: "char \<Rightarrow> char" where
  "toLowerChar c =
     (case map_of (zip ''ABCDEFGHIJKLMNOPQRSTUVWXYZ'' ''abcdefghijklmnopqrstuvwxyz'') c of
        None \<Rightarrow> c
      | Some l \<Rightarrow> l)"

definition toLowerCase :: "string \<Rightarrow> string" where
  "toLowerCase s = map toLowerChar s"

fun startsWith :: "string \<Rightarrow> string \<Rightarrow> bool" where
  "startsWith s [] = True"
| "startsWith [] (c # cs) = False"
| "startsWith (d # ds) (c # cs) = (d = c \<and> startsWith ds cs)"

fun includesString :: "string \<Rightarrow> string \<Rightarrow> bool" where
  "includesString [] needle = (needle = [])"
| "includesString (d # ds) needle = (startsWith (d # ds) needle \<or> includesString ds needle)"

text \<open>
  Modelled from the spec: when a query matches a service. Section 4.1: "\<open>query\<close> matches
  [a] service/entity name or category (case-insensitive substring match)".
\<close>

definition queryMatches :: "(string \<Rightarrow> string) \<Rightarrow> string \<Rightarrow> ODataService \<Rightarrow> bool" where
  "queryMatches lower query service =
     (let q = lower query
      in includesString (lower (serviceName service)) q \<or>
         list_ex (\<lambda>entity. includesString (lower entity) q) (entityNames service) \<or>
         list_ex (\<lambda>category. includesString (lower category) q) (categories service))"

text \<open>
  Modelled from the spec: the minimal-field form of a service, section 6:
  \<open>{type: "service", service: {serviceId, serviceName, entityCount, categories},
  entities: sequence<{entityName}>}\<close>. No property-level detail; the entity list of a
  returned service is never truncated (section 4.1).
\<close>

record serviceSummary =
  summaryServiceId :: string
  summaryServiceName :: string
  entityCount :: nat
  summaryCategories :: "string list"

record discoveryMatch =
  matchType :: string
  matchService :: serviceSummary
  matchEntities :: "string list"

definition minimalMatch :: "ODataService \<Rightarrow> discoveryMatch" where
  "minimalMatch service =
     \<lparr> matchType = ''service'',
       matchService =
         \<lparr> summaryServiceId = serviceId service,
           summaryServiceName = serviceName service,
           entityCount = length (entityNames service),
           summaryCategories = categories service \<rparr>,
       matchEntities = entityNames service \<rparr>"

definition fullCatalog :: "ODataService list \<Rightarrow> discoveryMatch list" where
  "fullCatalog catalog = map minimalMatch catalog"

text \<open>
  Modelled from the spec: \<open>search(query?, category?, limit?)\<close> of section 4.1. The
  services that match are kept, and "\<open>limit\<close> truncates the result sequence but never the
  per-service entity list". When no service matches, the search "falls back to returning
  the full catalog, still in minimal-field form": section 8 promises "the full minimal
  catalog" for all non-matching queries, and the repository's documentation says "No
  Matches: Automatically returns ALL available services", so the fallback is the whole
  catalog whatever the limit. The specification gives the \<open>category\<close> argument no
  meaning beyond its name: which services a category admits is the parameter \<open>admits\<close>.
\<close>

definition applyLimit :: "nat option \<Rightarrow> 'a list \<Rightarrow> 'a list" where
  "applyLimit limit xs = (case limit of None \<Rightarrow> xs | Some n \<Rightarrow> take n xs)"

definition matchingServices ::
  "(string \<Rightarrow> string) \<Rightarrow> (string \<Rightarrow> ODataService \<Rightarrow> bool) \<Rightarrow> ODataService list
     \<Rightarrow> string option \<Rightarrow> string option \<Rightarrow> ODataService list" where
  "matchingServices lower admits catalog query category =
     filter (\<lambda>service.
        (case query of None \<Rightarrow> True | Some q \<Rightarrow> queryMatches lower q service) \<and>
        (case category of None \<Rightarrow> True | Some c \<Rightarrow> admits c service)) catalog"

definition search ::
  "(string \<Rightarrow> string) \<Rightarrow> (string \<Rightarrow> ODataService \<Rightarrow> bool) \<Rightarrow> ODataService list
     \<Rightarrow> string option \<Rightarrow> string option \<Rightarrow> nat option \<Rightarrow> discoveryMatch list" where
  "search lower admits catalog query category limit =
     (let matched = matchingServices lower admits catalog query category
      in if matched = [] then fullCatalog catalog
         else applyLimit limit (map minimalMatch matched))"

text \<open>
  Modelled from the spec: the tool \<open>discover\<close>, section 4.5: "a direct pass-through" to
  the search, over the services the registry was constructed with. It has no failure.
\<close>

definition discover ::
  "(string \<Rightarrow> string) \<Rightarrow> (string \<Rightarrow> ODataService \<Rightarrow> bool) \<Rightarrow> registryState
     \<Rightarrow> string option \<Rightarrow> string option \<Rightarrow> nat option \<Rightarrow> error + discoveryMatch list" where
  "discover lower admits r query category limit =
     Inr (search lower admits (registryServices r) query category limit)"

text \<open>The query matches no service name, entity name or category of the catalog.\<close>

definition matchesNothing :: "(string \<Rightarrow> string) \<Rightarrow> string \<Rightarrow> ODataService list \<Rightarrow> bool" where
  "matchesNothing lower query catalog = (\<not> list_ex (queryMatches lower query) catalog)"

subsection \<open>Levels 2 and 3: schemas, validation and dispatch\<close>

text \<open>Modelled from the spec: PropertyDescriptor and EntitySchema of section 3.\<close>

record PropertyDescriptor =
  propertyName :: string
  edmType :: string
  nullable :: bool
  maxLength :: "nat option"
  isKey :: bool

record entityCapabilities =
  readable :: bool
  creatable :: bool
  updatable :: bool
  deletable :: bool

record EntitySchema =
  schemaServiceId :: string
  schemaEntityName :: string
  entitySet :: string
  namespace :: string
  keyProperties :: "string list"
  properties :: "PropertyDescriptor list"
  capabilities :: entityCapabilities

text \<open>
  Modelled from the spec: OperationRequest of section 3. The values of \<open>parameters\<close> are
  kept as text. \<open>filter\<close>, \<open>select\<close>, \<open>expand\<close> and \<open>orderby\<close> come without the
  \<open>$\<close> prefix.
\<close>

record OperationRequest =
  requestServiceId :: string
  requestEntityName :: string
  requestOperation :: operation
  filterString :: "string option"
  selectString :: "string option"
  expandString :: "string option"
  orderbyString :: "string option"
  topNumber :: "nat option"
  skipNumber :: "nat option"
  parameters :: "(string \<times> string) list"
  credential :: "string option"

datatype capability = Readable | Creatable | Updatable | Deletable

text \<open>
  Modelled from the spec, section 4.4: "\<open>create\<close> requires \<open>capabilities.creatable\<close>;
  \<open>update\<close>/\<open>delete\<close> require the matching capability". No capability is named for
  \<open>read\<close> and \<open>read-single\<close>.
\<close>

fun requiredCapability :: "operation \<Rightarrow> capability option" where
  "requiredCapability Create = Some Creatable"
| "requiredCapability Update = Some Updatable"
| "requiredCapability Delete = Some Deletable"
| "requiredCapability Read = None"
| "requiredCapability ReadSingle = None"

fun hasCapability :: "entityCapabilities \<Rightarrow> capability \<Rightarrow> bool" where
  "hasCapability c Readable = readable c"
| "hasCapability c Creatable = creatable c"
| "hasCapability c Updatable = updatable c"
| "hasCapability c Deletable = deletable c"

definition lacksRequiredCapability :: "OperationRequest \<Rightarrow> EntitySchema \<Rightarrow> bool" where
  "lacksRequiredCapability request schema =
     (case requiredCapability (requestOperation request) of
        None \<Rightarrow> False
      | Some c \<Rightarrow> \<not> hasCapability (capabilities schema) c)"

text \<open>
  Modelled from the spec: \<open>validate\<close> of section 4.3. "Validation rules, in order, each
  producing a distinct rejection reason: (1) operation requires a capability the entity
  lacks; (2) \<open>create\<close>/\<open>update\<close> parameters missing a required (non-nullable,
  non-defaulted) key or property; (3) \<open>update\<close>/\<open>delete\<close>/\<open>read-single\<close> missing one or
  more \<open>keyProperties\<close> in \<open>parameters\<close>; (4) supplied property name not present in
  \<open>properties\<close>". A PropertyDescriptor records no default, so the required properties
  are the non-nullable ones. \<open>None\<close> is acceptance.
\<close>

definition supplied :: "OperationRequest \<Rightarrow> string list" where
  "supplied request = map fst (parameters request)"

definition requiredProperties :: "EntitySchema \<Rightarrow> string list" where
  "requiredProperties schema =
     map propertyName (filter (\<lambda>p. \<not> nullable p) (properties schema))"

definition validate :: "OperationRequest \<Rightarrow> EntitySchema \<Rightarrow> error option" where
  "validate request schema =
     (let op = requestOperation request; given = supplied request
      in if lacksRequiredCapability request schema then Some CapabilityDenied
         else if (op = Create \<or> op = Update) \<and>
                 list_ex (\<lambda>name. name \<notin> set given) (requiredProperties schema)
           then Some MissingRequiredField
         else if (op = Update \<or> op = Delete \<or> op = ReadSingle) \<and>
                 list_ex (\<lambda>name. name \<notin> set given) (keyProperties schema)
           then Some MissingKey
         else if list_ex (\<lambda>name. name \<notin> set (map propertyName (properties schema))) given
           then Some UnknownProperty
         else None)"

text \<open>
  Modelled from the spec: the remote request of the Operation Dispatcher, section 4.4, and
  the answer of the execution collaborator, section 6 ("a parsed response or a structured
  fault").
\<close>

datatype queryValue = Text string | Count nat

datatype credentialUsed = UserCredential string | TechnicalCredential

record remoteCall =
  callOperation :: operation
  callEntitySet :: string
  callKey :: "(string \<times> string) list"
  callQuery :: "(string \<times> queryValue) list"
  callPayload :: "(string \<times> string) list"
  callCredential :: credentialUsed

datatype remoteAnswer =
    Answered string
  | Faulted nat string
  | Unreachable string
  | Malformed nat string

definition queryOption :: "string \<Rightarrow> ('a \<Rightarrow> queryValue) \<Rightarrow> 'a option \<Rightarrow> (string \<times> queryValue) list" where
  "queryOption name wrap v = (case v of None \<Rightarrow> [] | Some x \<Rightarrow> [(CHR ''$'' # name, wrap x)])"

definition buildQuery :: "OperationRequest \<Rightarrow> (string \<times> queryValue) list" where
  "buildQuery request =
     queryOption ''filter'' Text (filterString request) @
     queryOption ''select'' Text (selectString request) @
     queryOption ''expand'' Text (expandString request) @
     queryOption ''orderby'' Text (orderbyString request) @
     queryOption ''top'' Count (topNumber request) @
     queryOption ''skip'' Count (skipNumber request)"

definition keyOf :: "OperationRequest \<Rightarrow> EntitySchema \<Rightarrow> (string \<times> string) list" where
  "keyOf request schema =
     filter (\<lambda>(name, v). name \<in> set (keyProperties schema)) (parameters request)"

definition mutating :: "operation \<Rightarrow> bool" where
  "mutating op = (op = Create \<or> op = Update \<or> op = Delete)"

text \<open>
  Modelled from the spec, section 4.4: "\<open>create\<close>/\<open>update\<close>/\<open>delete\<close> fail with
  \<open>AuthenticationRequired\<close> if no credential is present -- \<open>read\<close>/\<open>read-single\<close> may
  proceed with a fallback technical credential if policy allows".
\<close>

definition chooseCredential :: "bool \<Rightarrow> OperationRequest \<Rightarrow> error + credentialUsed" where
  "chooseCredential fallbackAllowed request =
     (case credential request of
        Some token \<Rightarrow> Inr (UserCredential token)
      | None \<Rightarrow>
          if mutating (requestOperation request) \<or> \<not> fallbackAllowed
          then Inl AuthenticationRequired
          else Inr TechnicalCredential)"

definition classify :: "remoteAnswer \<Rightarrow> error + string" where
  "classify answer =
     (case answer of
        Answered body \<Rightarrow> Inr body
      | Faulted status message \<Rightarrow> Inl (RemoteFault status message)
      | Unreachable message \<Rightarrow> Inl (RemoteUnavailable message)
      | Malformed status message \<Rightarrow> Inl (RemoteUnexpectedResponse status message))"

text \<open>
  Modelled from the spec: \<open>execute\<close> of section 4.4. The result is the outcome together
  with the remote requests that were issued; there is no retry.
\<close>

definition execute ::
  "bool \<Rightarrow> (remoteCall \<Rightarrow> remoteAnswer) \<Rightarrow> OperationRequest \<Rightarrow> EntitySchema
     \<Rightarrow> (error + string) \<times> remoteCall list" where
  "execute fallbackAllowed remote request schema =
     (case chooseCredential fallbackAllowed request of
        Inl e \<Rightarrow> (Inl e, [])
      | Inr used \<Rightarrow>
          (let op = requestOperation request;
               call = \<lparr> callOperation = op,
                        callEntitySet = entitySet schema,
                        callKey = (if op = Read \<or> op = Create then [] else keyOf request schema),
                        callQuery = (if op = Read \<or> op = ReadSingle then buildQuery request else []),
                        callPayload = (if op = Create \<or> op = Update then parameters request else []),
                        callCredential = used \<rparr>
           in (classify (remote call), [call])))"

text \<open>
  Modelled from the spec: the tool \<open>executeOperation\<close> on the resolved schema of the
  entity, sections 4.3 to 4.5. The credential of the request is the AuthContext of the
  registry; the request is validated, and dispatched only when it is accepted.
\<close>

definition executeOperation ::
  "bool \<Rightarrow> (remoteCall \<Rightarrow> remoteAnswer) \<Rightarrow> registryState \<Rightarrow> EntitySchema \<Rightarrow> OperationRequest
     \<Rightarrow> (error + string) \<times> remoteCall list" where
  "executeOperation fallbackAllowed remote r schema request =
     (let authenticated = request\<lparr> credential := authContext r \<rparr>
      in case validate authenticated schema of
           Some e \<Rightarrow> (Inl e, [])
         | None \<Rightarrow> execute fallbackAllowed remote authenticated schema)"



subsection \<open>The credential of an \<open>executeOperation\<close> call on a server\<close>








section \<open>Properties of \<open>removeAdditionalProperties\<close>\<close>

subsection \<open>The copying loop\<close>

lemma copyEntries_Nil: "copyEntries f acc [] = acc"
  by (simp add: copyEntries_def)

lemma copyEntries_Cons:
  "copyEntries f acc ((k, v) # es) =
     copyEntries f (if k = ''additionalProperties'' then acc else assign acc k (f v)) es"
  by (simp add: copyEntries_def)

lemma update_fresh: "k \<notin> fst ` set acc \<Longrightarrow> AList.update k v acc = acc @ [(k, v)]"
  by (induction acc) auto

lemma update_entry:
  "(k, w) \<in> set (AList.update k' v acc) \<Longrightarrow> (k, w) \<in> set acc \<or> (k, w) = (k', v)"
  by (induction acc) (auto split: if_splits)

text \<open>The loop never produces two properties with one key.\<close>

lemma copyEntries_distinct:
  "distinct (map fst acc) \<Longrightarrow> distinct (map fst (copyEntries f acc es))"
proof (induction es arbitrary: acc)
  case Nil
  then show ?case by (simp add: copyEntries_Nil)
next
  case (Cons e es)
  obtain k v where e: "e = (k, v)" by (cases e)
  from Cons.prems have "distinct (map fst (assign acc k (f v)))"
    by (simp add: assign_def distinct_update)
  with Cons.prems Cons.IH show ?case
    by (simp add: e copyEntries_Cons)
qed

text \<open>
  Every property of the result was in the starting object, or is the image of an entry whose
  key is neither \<open>additionalProperties\<close> nor \<open>__proto__\<close>.
\<close>

lemma copyEntries_entries:
  "(k, w) \<in> set (copyEntries f acc es) \<Longrightarrow>
     (k, w) \<in> set acc \<or>
     (k \<noteq> ''additionalProperties'' \<and> k \<noteq> ''__proto__'' \<and> (\<exists>v. (k, v) \<in> set es \<and> w = f v))"
proof (induction es arbitrary: acc)
  case Nil
  then show ?case by (simp add: copyEntries_Nil)
next
  case (Cons e es)
  obtain k' v' where e: "e = (k', v')" by (cases e)
  let ?acc' = "if k' = ''additionalProperties'' then acc else assign acc k' (f v')"
  from Cons.prems have "(k, w) \<in> set (copyEntries f ?acc' es)"
    by (simp add: e copyEntries_Cons)
  from Cons.IH [OF this]
  consider "(k, w) \<in> set ?acc'"
    | "k \<noteq> ''additionalProperties'' \<and> k \<noteq> ''__proto__'' \<and> (\<exists>v. (k, v) \<in> set es \<and> w = f v)"
    by blast
  then show ?case
  proof cases
    case 1
    then have "(k, w) \<in> set acc \<or>
        (k' \<noteq> ''additionalProperties'' \<and> k' \<noteq> ''__proto__'' \<and> (k, w) = (k', f v'))"
      by (auto simp: assign_def split: if_splits dest: update_entry)
    then show ?thesis by (auto simp: e)
  next
    case 2
    then show ?thesis by (auto simp: e)
  qed
qed

text \<open>On entries with fresh, distinct keys, none of them \<open>__proto__\<close>, the loop is a
  filter followed by a map, appended to the starting object.\<close>

lemma copyEntries_plain:
  "distinct (map fst (acc @ es)) \<Longrightarrow> ''__proto__'' \<notin> fst ` set es \<Longrightarrow>
   copyEntries f acc es =
     acc @ map (\<lambda>(k, v). (k, f v)) (filter (\<lambda>(k, v). k \<noteq> ''additionalProperties'') es)"
proof (induction es arbitrary: acc)
  case Nil
  then show ?case by (simp add: copyEntries_Nil)
next
  case (Cons e es)
  obtain k v where e: "e = (k, v)" by (cases e)
  from Cons.prems have fresh: "k \<notin> fst ` set acc" and np: "k \<noteq> ''__proto__''"
    and rest: "''__proto__'' \<notin> fst ` set es"
    by (auto simp: e)
  show ?case
  proof (cases "k = ''additionalProperties''")
    case True
    have "distinct (map fst (acc @ es))" using Cons.prems(1) by (simp add: e)
    from Cons.IH [OF this rest] True show ?thesis
      by (simp add: e copyEntries_Cons)
  next
    case False
    have step: "assign acc k (f v) = acc @ [(k, f v)]"
      using np fresh by (simp add: assign_def update_fresh)
    have "distinct (map fst ((acc @ [(k, f v)]) @ es))"
      using Cons.prems(1) by (simp add: e)
    from Cons.IH [OF this rest] False show ?thesis
      by (simp add: e copyEntries_Cons step)
  qed
qed

lemma copyEntries_settled:
  "distinct (map fst (acc @ es)) \<Longrightarrow>
   (\<And>k v. (k, v) \<in> set es \<Longrightarrow> k \<noteq> ''additionalProperties'' \<and> k \<noteq> ''__proto__'' \<and> f v = v) \<Longrightarrow>
   copyEntries f acc es = acc @ es"
proof -
  assume d: "distinct (map fst (acc @ es))"
    and ok: "\<And>k v. (k, v) \<in> set es \<Longrightarrow> k \<noteq> ''additionalProperties'' \<and> k \<noteq> ''__proto__'' \<and> f v = v"
  from ok have np: "''__proto__'' \<notin> fst ` set es" by force
  from ok have keep: "filter (\<lambda>(k, v). k \<noteq> ''additionalProperties'') es = es"
    by (auto simp: filter_id_conv)
  from ok have same: "map (\<lambda>(k, v). (k, f v)) es = es"
    by (intro map_idI) auto
  from copyEntries_plain [OF d np, of f] keep same show ?thesis by simp
qed

subsection \<open>The result is settled, and the function is the identity on settled values\<close>

lemma settled_removeAdditionalProperties: "settled (removeAdditionalProperties x)"
proof (induction x rule: removeAdditionalProperties.induct)
  case (4 entries)
  let ?res = "copyEntries removeAdditionalProperties [] entries"
  have d: "distinct (map fst ?res)"
    by (rule copyEntries_distinct) simp
  have "key \<noteq> ''additionalProperties'' \<and> key \<noteq> ''__proto__'' \<and> settled w"
    if "(key, w) \<in> set ?res" for key w
  proof -
    from copyEntries_entries [OF that]
    obtain v where "key \<noteq> ''additionalProperties''" "key \<noteq> ''__proto__''"
      "(key, v) \<in> set entries" "w = removeAdditionalProperties v"
      by auto
    with "4.IH" show ?thesis by auto
  qed
  with d show ?case
    by (auto simp: copyEntries_def [symmetric] list_all_iff)
qed (simp_all add: list_all_iff)

lemma removeAdditionalProperties_settled: "settled x \<Longrightarrow> removeAdditionalProperties x = x"
proof (induction x rule: removeAdditionalProperties.induct)
  case (3 items)
  then show ?case by (simp add: list_all_iff map_idI)
next
  case (4 entries)
  have "copyEntries removeAdditionalProperties [] entries = [] @ entries"
  proof (rule copyEntries_settled)
    show "distinct (map fst ([] @ entries))" using "4.prems" by simp
    show "k \<noteq> ''additionalProperties'' \<and> k \<noteq> ''__proto__'' \<and> removeAdditionalProperties v = v"
      if "(k, v) \<in> set entries" for k v
      using "4.prems" "4.IH" [of "(k, v)" k v] that by (auto simp: list_all_iff)
  qed
  then show ?case by (simp add: copyEntries_def)
qed simp_all

lemma settled_no_additionalProperties: "settled x \<Longrightarrow> \<not> mentionsAdditionalProperties x"
  by (induction x rule: settled.induct) (auto simp: list_all_iff list_ex_iff)

text \<open>
  No object of the result, at any depth, has a property named \<open>additionalProperties\<close>; and
  on a value without a \<open>__proto__\<close> key the function computes what its documentation says.
\<close>

lemma removeAdditionalProperties_removes:
  "\<not> mentionsAdditionalProperties (removeAdditionalProperties x)"
  by (rule settled_no_additionalProperties) (rule settled_removeAdditionalProperties)

lemma removeAdditionalProperties_plain:
  "plain x \<Longrightarrow> removeAdditionalProperties x = withoutAdditionalProperties x"
proof (induction x rule: removeAdditionalProperties.induct)
  case (3 items)
  then show ?case by (simp add: list_all_iff)
next
  case (4 entries)
  from "4.prems" have d: "distinct (map fst ([] @ entries))"
    and np: "''__proto__'' \<notin> fst ` set entries"
    by (auto simp: list_all_iff)
  have "map (\<lambda>(k, v). (k, removeAdditionalProperties v))
          (filter (\<lambda>(k, v). k \<noteq> ''additionalProperties'') entries) =
        map (\<lambda>(k, v). (k, withoutAdditionalProperties v))
          (filter (\<lambda>(k, v). k \<noteq> ''additionalProperties'') entries)"
    using "4.prems" "4.IH" by (auto simp: list_all_iff)
  with copyEntries_plain [OF d np, of removeAdditionalProperties] show ?case
    by (simp add: copyEntries_def)
qed simp_all

text \<open>
  C8. The claim: every key other than \<open>additionalProperties\<close> is preserved with its cleaned
  value. At the value of \<open>JSON.parse('{"__proto__": {"a": 1}, "b": 2}')\<close> the function
  returns an object whose only own property is \<open>b\<close>: the property \<open>__proto__\<close> is lost,
  because the assignment \<open>cleaned[key] = ...\<close> sets the prototype of \<open>cleaned\<close> instead
  of creating the property.
\<close>

theorem removeAdditionalProperties_loses_proto_key:
  "removeAdditionalProperties
     (JObject [(''__proto__'', JObject [(''a'', JNumber (1::int))]), (''b'', JNumber 2)]) =
   JObject [(''b'', JNumber 2)]"
  by (simp add: assign_def)

text \<open>
  C10. \<open>removeAdditionalProperties\<close> is idempotent: applying it to its own result changes
  nothing, for every input value.
\<close>

theorem removeAdditionalProperties_idempotent:
  "removeAdditionalProperties (removeAdditionalProperties x) = removeAdditionalProperties x"
  by (rule removeAdditionalProperties_settled) (rule settled_removeAdditionalProperties)


section \<open>Properties of the MCP server\<close>

text \<open>
  C9. For every options argument, absent, empty, or with \<open>enableDnsRebindingProtection\<close>
  set to \<open>true\<close> or to \<open>false\<close>, \<open>createHTTPTransport\<close> constructs the transport with
  DNS rebinding protection enabled.
\<close>

theorem createHTTPTransport_protection_always_enabled:
  "transportDnsRebindingProtection (createHTTPTransport options) = True"
  by (simp add: createHTTPTransport_def orBoolean_def split: option.splits)

subsection \<open>The registry variant\<close>

lemma instanceofHierarchical_newMCPServer:
  "instanceofHierarchical (toolRegistry (newMCPServer env discovered)) =
     (env ''MCP_TOOL_REGISTRY_TYPE'' \<noteq> Some ''flat'')"
  by (auto simp: newMCPServer_def orString_def Let_def split: option.splits)

lemma instanceofHierarchical_setUserToken:
  "instanceofHierarchical (toolRegistry (setUserToken token this)) =
     instanceofHierarchical (toolRegistry this)"
  by (simp add: setUserToken_def split: toolRegistry.splits)

text \<open>
  C7, as amended. The registry variant is chosen once, by the constructor: the flat variant
  if and only if \<open>MCP_TOOL_REGISTRY_TYPE\<close> equals \<open>flat\<close>, the hierarchical variant for
  every other value, the empty string and an absent variable; \<open>setUserToken\<close>,
  \<open>initialize\<close> and \<open>connectStdio\<close> leave the variant as it is. The variant is
  inspected after construction: \<open>setUserToken\<close> calls the registry's \<open>setUserToken\<close>
  when the registry is hierarchical and calls nothing on a flat one, and \<open>initialize\<close>
  calls \<open>registerDiscoveryTools\<close> on a hierarchical registry and
  \<open>registerServiceCRUDTools\<close> on a flat one.
\<close>

theorem registry_variant_fixed_at_construction:
  "instanceofHierarchical (toolRegistry (newMCPServer env discovered)) =
     (env ''MCP_TOOL_REGISTRY_TYPE'' \<noteq> Some ''flat'') \<and>
   instanceofHierarchical (toolRegistry (setUserToken token this)) =
     instanceofHierarchical (toolRegistry this) \<and>
   (case initialize w this of
      Inl e \<Rightarrow> True
    | Inr that \<Rightarrow>
        instanceofHierarchical (toolRegistry that) = instanceofHierarchical (toolRegistry this)) \<and>
   (case connectStdio w this of
      Inl e \<Rightarrow> True
    | Inr that \<Rightarrow> toolRegistry that = toolRegistry this) \<and>
   received (registryStateOf (toolRegistry (setUserToken token this))) =
     (if instanceofHierarchical (toolRegistry this)
      then received (registryStateOf (toolRegistry this)) @ [SetUserToken token]
      else received (registryStateOf (toolRegistry this))) \<and>
   (case initialize w this of
      Inl e \<Rightarrow> registrationThrows w
    | Inr that \<Rightarrow>
        received (registryStateOf (toolRegistry that)) =
          received (registryStateOf (toolRegistry this)) @
            (if instanceofHierarchical (toolRegistry this)
             then [RegisterServiceMetadataResources, RegisterDiscoveryTools]
             else [RegisterServiceMetadataResources, RegisterServiceCRUDTools]))"
proof -
  have init: "(case initialize w this of
      Inl e \<Rightarrow> True
    | Inr that \<Rightarrow>
        instanceofHierarchical (toolRegistry that) = instanceofHierarchical (toolRegistry this))"
    by (cases "toolRegistry this") (simp_all add: initialize_def)
  have conn: "(case connectStdio w this of
      Inl e \<Rightarrow> True
    | Inr that \<Rightarrow> toolRegistry that = toolRegistry this)"
    by (simp add: connectStdio_def)
  have recv: "received (registryStateOf (toolRegistry (setUserToken token this))) =
     (if instanceofHierarchical (toolRegistry this)
      then received (registryStateOf (toolRegistry this)) @ [SetUserToken token]
      else received (registryStateOf (toolRegistry this)))"
    by (cases "toolRegistry this") (simp_all add: setUserToken_def registrySetUserToken_def)
  have calls: "(case initialize w this of
      Inl e \<Rightarrow> registrationThrows w
    | Inr that \<Rightarrow>
        received (registryStateOf (toolRegistry that)) =
          received (registryStateOf (toolRegistry this)) @
            (if instanceofHierarchical (toolRegistry this)
             then [RegisterServiceMetadataResources, RegisterDiscoveryTools]
             else [RegisterServiceMetadataResources, RegisterServiceCRUDTools]))"
    by (cases "toolRegistry this")
       (simp_all add: initialize_def registerDiscoveryTools_def registerServiceCRUDTools_def
          registerServiceMetadataResources_def)
  from init conn recv calls show ?thesis
    by (simp add: instanceofHierarchical_newMCPServer instanceofHierarchical_setUserToken)
qed

text \<open>
  C7 as stated fails: a server that never inspected the variant would call the same methods
  on either registry. Two servers constructed from the same services, one with the default
  configuration and one with \<open>MCP_TOOL_REGISTRY_TYPE=flat\<close>, are sent different calls by
  \<open>setUserToken('jwt')\<close>: the hierarchical registry receives \<open>setUserToken\<close>, the flat
  one receives nothing.
\<close>

theorem registry_variant_inspected_counterexample:
  "received (registryStateOf (toolRegistry
      (setUserToken (Some ''jwt'') (newMCPServer Map.empty [])))) \<noteq>
   received (registryStateOf (toolRegistry
      (setUserToken (Some ''jwt'') (newMCPServer [''MCP_TOOL_REGISTRY_TYPE'' \<mapsto> ''flat''] []))))"
  by (simp add: setUserToken_def newMCPServer_def orString_def newRegistry_def
        registrySetUserToken_def)

subsection \<open>The user token\<close>










subsection \<open>The exposed tools\<close>

lemma createMCPServer_tools:
  "createMCPServer w discovered token = Inr server \<Longrightarrow>
     exposedTools server =
       (if processEnv w ''MCP_TOOL_REGISTRY_TYPE'' = Some ''flat''
        then crudTools (disableReadEntityTool (processEnv w)) discovered
        else [DiscoverSapData, GetEntityMetadata, ExecuteSapOperation])"
  by (auto simp: createMCPServer_def initialize_def newMCPServer_def setUserToken_def
        exposedTools_def newRegistry_def orString_def Let_def
        registerDiscoveryTools_def registerServiceCRUDTools_def
        registerServiceMetadataResources_def registrySetUserToken_def
      split: if_splits option.splits)

text \<open>
  C2, as amended. A server created by \<open>createMCPServer\<close> with a registry type other than
  \<open>flat\<close> exposes exactly the three tools \<open>discover-sap-data\<close>,
  \<open>get-entity-metadata\<close> and \<open>execute-sap-operation\<close>, whatever services and entities
  were discovered and whatever token was passed. With the registry type \<open>flat\<close> it
  exposes the per-entity tools of \<open>registerServiceCRUDTools\<close> instead.
\<close>

theorem exposed_tools_by_registry_type:
  "createMCPServer w discovered token = Inr server \<Longrightarrow>
     (processEnv w ''MCP_TOOL_REGISTRY_TYPE'' \<noteq> Some ''flat'' \<longrightarrow>
        exposedTools server = [DiscoverSapData, GetEntityMetadata, ExecuteSapOperation]) \<and>
     (processEnv w ''MCP_TOOL_REGISTRY_TYPE'' = Some ''flat'' \<longrightarrow>
        exposedTools server = crudTools (disableReadEntityTool (processEnv w)) discovered)"
  by (simp add: createMCPServer_tools)

text \<open>
  With the default configuration, one discovered service of two entities and a token, the
  server is created and exposes the three tools.
\<close>

theorem exposed_tools_by_registry_type_witness:
  "\<exists>server.
     createMCPServer
       \<lparr> processEnv = Map.empty, constructionThrows = False, registrationThrows = False,
         connectThrows = False \<rparr>
       [\<lparr> serviceId = ''API_BUSINESS_PARTNER'', serviceName = ''Business Partner API'',
          description = ''Manage business partners'', odataVersion = ''2.0'',
          categories = [''business-partner''], entityNames = [''Customer'', ''Supplier''] \<rparr>]
       (Some ''jwt'') = Inr server \<and>
     exposedTools server = [DiscoverSapData, GetEntityMetadata, ExecuteSapOperation]"
proof -
  let ?w = "\<lparr> processEnv = Map.empty, constructionThrows = False, registrationThrows = False,
         connectThrows = False \<rparr>"
  let ?d = "[\<lparr> serviceId = ''API_BUSINESS_PARTNER'', serviceName = ''Business Partner API'',
          description = ''Manage business partners'', odataVersion = ''2.0'',
          categories = [''business-partner''], entityNames = [''Customer'', ''Supplier''] \<rparr>]"
  obtain server where s: "createMCPServer ?w ?d (Some ''jwt'') = Inr server"
    by (simp add: createMCPServer_def initialize_def Let_def)
  from exposed_tools_by_registry_type [OF s]
  have "exposedTools server = [DiscoverSapData, GetEntityMetadata, ExecuteSapOperation]"
    by simp
  with s show ?thesis by blast
qed

text \<open>
  C2 as stated fails under the configuration \<open>MCP_TOOL_REGISTRY_TYPE=flat\<close>: with one
  discovered service of one entity the server exposes five tools, one per operation on the
  entity, and none of the three.
\<close>

theorem flat_registry_tools_counterexample:
  "\<exists>server.
     createMCPServer
       \<lparr> processEnv = [''MCP_TOOL_REGISTRY_TYPE'' \<mapsto> ''flat''], constructionThrows = False,
         registrationThrows = False, connectThrows = False \<rparr>
       [\<lparr> serviceId = ''API_BUSINESS_PARTNER'', serviceName = ''Business Partner API'',
          description = ''Manage business partners'', odataVersion = ''2.0'',
          categories = [''business-partner''], entityNames = [''Customer''] \<rparr>]
       None = Inr server \<and>
     exposedTools server =
       [EntityTool ''API_BUSINESS_PARTNER'' ''Customer'' Read,
        EntityTool ''API_BUSINESS_PARTNER'' ''Customer'' ReadSingle,
        EntityTool ''API_BUSINESS_PARTNER'' ''Customer'' Create,
        EntityTool ''API_BUSINESS_PARTNER'' ''Customer'' Update,
        EntityTool ''API_BUSINESS_PARTNER'' ''Customer'' Delete] \<and>
     exposedTools server \<noteq> [DiscoverSapData, GetEntityMetadata, ExecuteSapOperation]"
  by (simp add: createMCPServer_def initialize_def newMCPServer_def truthyString_def
        exposedTools_def newRegistry_def orString_def registerServiceCRUDTools_def
        registerServiceMetadataResources_def crudTools_def entityOperations_def
        disableReadEntityTool_def)

subsection \<open>Startup\<close>

lemma runStdioServer_exits:
  "constructionThrows w \<or> registrationThrows w \<or> connectThrows w \<Longrightarrow>
     runStdioServer w discovered = Exited 1"
  by (auto simp: runStdioServer_def createMCPServer_def connectStdio_def initialize_def
        truthyString_def Let_def)

lemma runStdioServer_runs:
  "\<not> (constructionThrows w \<or> registrationThrows w \<or> connectThrows w) \<Longrightarrow>
     \<exists>server. runStdioServer w discovered = Running server"
  by (simp add: runStdioServer_def createMCPServer_def connectStdio_def initialize_def
        truthyString_def Let_def)

lemma runStdioServer_running:
  "runStdioServer w discovered = Running server \<Longrightarrow>
     discoveredServices server = discovered \<and>
     registryServices (registryStateOf (toolRegistry server)) = discovered \<and>
     stdioConnected server"
  by (auto simp: runStdioServer_def createMCPServer_def connectStdio_def initialize_def
        truthyString_def newMCPServer_def newRegistry_def Let_def
        registerDiscoveryTools_def registerServiceCRUDTools_def
        registerServiceMetadataResources_def
      split: if_splits)

text \<open>
  Whether the server starts depends on the collaborators of the server alone, not on the
  services it is started with.
\<close>

lemma operational_runStdioServer:
  "operational (runStdioServer w discovered) =
     (\<not> (constructionThrows w \<or> registrationThrows w \<or> connectThrows w))"
proof (cases "constructionThrows w \<or> registrationThrows w \<or> connectThrows w")
  case True
  from runStdioServer_exits [OF this, of discovered] True show ?thesis by simp
next
  case False
  from runStdioServer_runs [OF this, of discovered] False show ?thesis by auto
qed

text \<open>
  C1. In every run of the stdio entry point in which the discovery fails or the 60 second
  timer wins the race, the failure is caught and the server is started with an empty
  service catalog: the entry point does what \<open>runStdioServer([])\<close> does. The failure
  never decides whether the process becomes operational: it is operational exactly when it
  would be after a successful discovery of any services, that is, whenever creating the
  server, registering its tools and connecting the stdio transport do not throw; and when
  it is operational, the server is connected and its catalog is empty.
\<close>

theorem discovery_failure_starts_empty_server:
  "discoveryFailed race \<Longrightarrow>
     stdioEntryPoint w race = runStdioServer w [] \<and>
     operational (stdioEntryPoint w race) =
       operational (stdioEntryPoint w (DiscoveryResolved discovered)) \<and>
     operational (stdioEntryPoint w race) =
       (\<not> (constructionThrows w \<or> registrationThrows w \<or> connectThrows w)) \<and>
     (operational (stdioEntryPoint w race) \<longrightarrow>
        (\<exists>server. stdioEntryPoint w race = Running server \<and>
           discoveredServices server = [] \<and>
           registryServices (registryStateOf (toolRegistry server)) = [] \<and>
           stdioConnected server))"
proof -
  assume "discoveryFailed race"
  then have entry: "stdioEntryPoint w race = runStdioServer w []"
    by (cases race) (simp_all add: stdioEntryPoint_def)
  have resolved: "stdioEntryPoint w (DiscoveryResolved discovered) = runStdioServer w discovered"
    by (simp add: stdioEntryPoint_def)
  have same: "operational (stdioEntryPoint w race) =
      operational (stdioEntryPoint w (DiscoveryResolved discovered))"
    by (simp add: entry resolved operational_runStdioServer)
  have starts: "operational (stdioEntryPoint w race) =
      (\<not> (constructionThrows w \<or> registrationThrows w \<or> connectThrows w))"
    by (simp only: entry operational_runStdioServer)
  have empty: "\<exists>server. stdioEntryPoint w race = Running server \<and>
           discoveredServices server = [] \<and>
           registryServices (registryStateOf (toolRegistry server)) = [] \<and>
           stdioConnected server"
    if "operational (stdioEntryPoint w race)"
  proof -
    from that obtain server where r: "runStdioServer w [] = Running server"
      by (cases "runStdioServer w []") (simp_all add: entry)
    from runStdioServer_running [OF r] r entry show ?thesis by simp
  qed
  from entry same starts empty show ?thesis by blast
qed

text \<open>
  The timer wins the race and no collaborator of the server throws: the process serves on
  stdio with an empty catalog.
\<close>

theorem discovery_failure_starts_empty_server_witness:
  "discoveryFailed TimeoutRejected \<and>
   operational (stdioEntryPoint
        \<lparr> processEnv = Map.empty, constructionThrows = False, registrationThrows = False,
          connectThrows = False \<rparr> TimeoutRejected) \<and>
   (\<exists>server.
      stdioEntryPoint
        \<lparr> processEnv = Map.empty, constructionThrows = False, registrationThrows = False,
          connectThrows = False \<rparr> TimeoutRejected = Running server \<and>
      discoveredServices server = [] \<and> stdioConnected server)"
proof -
  let ?w = "\<lparr> processEnv = Map.empty, constructionThrows = False,
        registrationThrows = False, connectThrows = False \<rparr>"
  have failed: "discoveryFailed TimeoutRejected" by simp
  note fact = discovery_failure_starts_empty_server [OF failed, of ?w "[]"]
  from fact [THEN conjunct2, THEN conjunct2, THEN conjunct1]
  have op: "operational (stdioEntryPoint ?w TimeoutRejected)"
    by simp
  with fact [THEN conjunct2, THEN conjunct2, THEN conjunct2] have "\<exists>server. stdioEntryPoint ?w TimeoutRejected = Running server \<and>
          discoveredServices server = [] \<and>
          registryServices (registryStateOf (toolRegistry server)) = [] \<and>
          stdioConnected server"
    by blast
  with failed op show ?thesis by blast
qed


section \<open>Properties of the discovery and dispatch core\<close>

subsection \<open>Dispatch\<close>

text \<open>
  Every remote request that \<open>executeOperation\<close> issues carries the AuthContext of the
  registry, or the technical credential when there is none.
\<close>

lemma executeOperation_credential:
  "executeOperation fallbackAllowed remote r schema request = (outcome, calls) \<Longrightarrow>
   call \<in> set calls \<Longrightarrow>
   callCredential call =
     (case authContext r of Some token \<Rightarrow> UserCredential token | None \<Rightarrow> TechnicalCredential)"
  by (auto simp: executeOperation_def execute_def chooseCredential_def Let_def
      split: option.splits if_splits sum.splits)

text \<open>The scenario of section 8: an update without a credential.\<close>

lemma executeOperation_update_scenario:
  "fst (executeOperation True remote (newRegistry [])
     \<lparr> schemaServiceId = ''API_BUSINESS_PARTNER'', schemaEntityName = ''Customer'',
       entitySet = ''CustomerSet'', namespace = ''API_BUSINESS_PARTNER'',
       keyProperties = [''CustomerID''],
       properties = [\<lparr> propertyName = ''CustomerID'', edmType = ''Edm.String'',
                       nullable = False, maxLength = Some 10, isKey = True \<rparr>,
                     \<lparr> propertyName = ''EmailAddress'', edmType = ''Edm.String'',
                       nullable = True, maxLength = Some 241, isKey = False \<rparr>],
       capabilities = \<lparr> readable = True, creatable = True, updatable = True,
                        deletable = False \<rparr> \<rparr>
     \<lparr> requestServiceId = ''API_BUSINESS_PARTNER'', requestEntityName = ''Customer'',
       requestOperation = Update, filterString = None, selectString = None,
       expandString = None, orderbyString = None, topNumber = None, skipNumber = None,
       parameters = [(''CustomerID'', ''ACME001''), (''EmailAddress'', ''new@acme.com'')],
       credential = None \<rparr>) = Inl AuthenticationRequired"
  by (simp add: executeOperation_def validate_def lacksRequiredCapability_def supplied_def
        requiredProperties_def execute_def chooseCredential_def mutating_def newRegistry_def)

text \<open>
  C4. For every \<open>executeOperation\<close> request whose operation requires a capability
  (creatable for \<open>create\<close>, updatable for \<open>update\<close>, deletable for \<open>delete\<close>) that the
  resolved schema marks as false, the call fails with \<open>CapabilityDenied\<close> and issues no
  remote request, whatever the credential, the parameters and the remote system.
\<close>

theorem capability_denied_before_any_remote_call:
  "requiredCapability (requestOperation request) = Some c \<Longrightarrow>
   \<not> hasCapability (capabilities schema) c \<Longrightarrow>
   executeOperation fallbackAllowed remote r schema request = (Inl CapabilityDenied, [])"
  by (simp add: executeOperation_def validate_def lacksRequiredCapability_def Let_def)

text \<open>
  A \<open>delete\<close> with a credential and the full key, on an entity that is not deletable.
\<close>

theorem capability_denied_before_any_remote_call_witness:
  "requiredCapability Delete = Some Deletable \<and>
   \<not> hasCapability \<lparr> readable = True, creatable = True, updatable = True, deletable = False \<rparr>
       Deletable \<and>
   executeOperation True (\<lambda>call. Answered ''{}'')
     (registrySetUserToken (Some ''jwt'') (newRegistry []))
     \<lparr> schemaServiceId = ''API_BUSINESS_PARTNER'', schemaEntityName = ''Customer'',
       entitySet = ''CustomerSet'', namespace = ''API_BUSINESS_PARTNER'',
       keyProperties = [''CustomerID''],
       properties = [\<lparr> propertyName = ''CustomerID'', edmType = ''Edm.String'',
                       nullable = False, maxLength = Some 10, isKey = True \<rparr>],
       capabilities = \<lparr> readable = True, creatable = True, updatable = True,
                        deletable = False \<rparr> \<rparr>
     \<lparr> requestServiceId = ''API_BUSINESS_PARTNER'', requestEntityName = ''Customer'',
       requestOperation = Delete, filterString = None, selectString = None,
       expandString = None, orderbyString = None, topNumber = None, skipNumber = None,
       parameters = [(''CustomerID'', ''ACME001'')], credential = None \<rparr>
   = (Inl CapabilityDenied, [])"
  using capability_denied_before_any_remote_call
    [of "\<lparr> requestServiceId = ''API_BUSINESS_PARTNER'', requestEntityName = ''Customer'',
       requestOperation = Delete, filterString = None, selectString = None,
       expandString = None, orderbyString = None, topNumber = None, skipNumber = None,
       parameters = [(''CustomerID'', ''ACME001'')], credential = None \<rparr>"
      Deletable
      "\<lparr> schemaServiceId = ''API_BUSINESS_PARTNER'', schemaEntityName = ''Customer'',
       entitySet = ''CustomerSet'', namespace = ''API_BUSINESS_PARTNER'',
       keyProperties = [''CustomerID''],
       properties = [\<lparr> propertyName = ''CustomerID'', edmType = ''Edm.String'',
                       nullable = False, maxLength = Some 10, isKey = True \<rparr>],
       capabilities = \<lparr> readable = True, creatable = True, updatable = True,
                        deletable = False \<rparr> \<rparr>"
      True "\<lambda>call. Answered ''{}''" "registrySetUserToken (Some ''jwt'') (newRegistry [])"]
  by simp

subsection \<open>Discovery\<close>

text \<open>The scenario of section 8: the query \<open>customer\<close>.\<close>

lemma search_customer_scenario:
  "search toLowerCase admits
     [\<lparr> serviceId = ''API_BUSINESS_PARTNER'', serviceName = ''Business Partner API'',
        description = ''Manage business partners'', odataVersion = ''2.0'',
        categories = [''business-partner''], entityNames = [''Customer'', ''Supplier''] \<rparr>]
     (Some ''customer'') None None =
   [\<lparr> matchType = ''service'',
      matchService = \<lparr> summaryServiceId = ''API_BUSINESS_PARTNER'',
                       summaryServiceName = ''Business Partner API'',
                       entityCount = 2, summaryCategories = [''business-partner''] \<rparr>,
      matchEntities = [''Customer'', ''Supplier''] \<rparr>]"
  by (simp add: search_def matchingServices_def queryMatches_def toLowerCase_def toLowerChar_def
        applyLimit_def minimalMatch_def)

lemma matchingServices_nothing:
  "matchesNothing lower query catalog \<Longrightarrow>
     matchingServices lower admits catalog (Some query) category = []"
  by (auto simp: matchesNothing_def matchingServices_def list_ex_iff filter_empty_conv)

text \<open>
  C5. For every \<open>discover\<close> call whose query matches no service name, entity name or
  category, under any case folding, any category and any limit, the result is not an error
  and not the empty list of matches: it is the full catalog in minimal-field form, one
  entry for each service of the catalog, in the order of the catalog.
\<close>

theorem discover_falls_back_to_catalog:
  "matchesNothing lower query (registryServices r) \<Longrightarrow>
     discover lower admits r (Some query) category limit =
       Inr (fullCatalog (registryServices r)) \<and>
     fullCatalog (registryServices r) = map minimalMatch (registryServices r) \<and>
     length (fullCatalog (registryServices r)) = length (registryServices r)"
  by (simp add: discover_def search_def matchingServices_nothing fullCatalog_def)

text \<open>
  The query \<open>invoice\<close> matches nothing in a catalog of two services; with a limit of 1 the
  result is still both services, in minimal form.
\<close>

theorem discover_falls_back_to_catalog_witness:
  "matchesNothing toLowerCase ''invoice''
     [\<lparr> serviceId = ''API_BUSINESS_PARTNER'', serviceName = ''Business Partner API'',
        description = ''Manage business partners'', odataVersion = ''2.0'',
        categories = [''business-partner''], entityNames = [''Customer'', ''Supplier''] \<rparr>,
      \<lparr> serviceId = ''API_SALES_ORDER'', serviceName = ''Sales Order API'',
        description = ''Manage sales orders'', odataVersion = ''2.0'',
        categories = [''sales''], entityNames = [''SalesOrder''] \<rparr>] \<and>
   discover toLowerCase (\<lambda>c service. c \<in> set (categories service))
     (newRegistry
       [\<lparr> serviceId = ''API_BUSINESS_PARTNER'', serviceName = ''Business Partner API'',
          description = ''Manage business partners'', odataVersion = ''2.0'',
          categories = [''business-partner''], entityNames = [''Customer'', ''Supplier''] \<rparr>,
        \<lparr> serviceId = ''API_SALES_ORDER'', serviceName = ''Sales Order API'',
          description = ''Manage sales orders'', odataVersion = ''2.0'',
          categories = [''sales''], entityNames = [''SalesOrder''] \<rparr>])
     (Some ''invoice'') None (Some 1) =
   Inr [\<lparr> matchType = ''service'',
          matchService = \<lparr> summaryServiceId = ''API_BUSINESS_PARTNER'',
                           summaryServiceName = ''Business Partner API'',
                           entityCount = 2, summaryCategories = [''business-partner''] \<rparr>,
          matchEntities = [''Customer'', ''Supplier''] \<rparr>,
        \<lparr> matchType = ''service'',
          matchService = \<lparr> summaryServiceId = ''API_SALES_ORDER'',
                           summaryServiceName = ''Sales Order API'',
                           entityCount = 1, summaryCategories = [''sales''] \<rparr>,
          matchEntities = [''SalesOrder''] \<rparr>]"
proof -
  let ?catalog = "[\<lparr> serviceId = ''API_BUSINESS_PARTNER'', serviceName = ''Business Partner API'',
        description = ''Manage business partners'', odataVersion = ''2.0'',
        categories = [''business-partner''], entityNames = [''Customer'', ''Supplier''] \<rparr>,
      \<lparr> serviceId = ''API_SALES_ORDER'', serviceName = ''Sales Order API'',
        description = ''Manage sales orders'', odataVersion = ''2.0'',
        categories = [''sales''], entityNames = [''SalesOrder''] \<rparr>]"
  have none: "matchesNothing toLowerCase ''invoice'' (registryServices (newRegistry ?catalog))"
    by (simp add: matchesNothing_def queryMatches_def toLowerCase_def toLowerChar_def
          newRegistry_def)
  from discover_falls_back_to_catalog
    [OF none, of "\<lambda>c service. c \<in> set (categories service)" None "Some 1"]
  show ?thesis
    using none by (simp add: newRegistry_def fullCatalog_def minimalMatch_def)
qed

end
